theory Spec2Isabelle
  imports Complex_Main "HOL-Library.Char_ord" "HOL-Library.List_Lexorder"
begin

section \<open>Python values, schemas and exceptions\<close>

text \<open>
  The values that occur in a raw record are JSON scalars. Floats are idealised as the
  reals they denote; no theorem below depends on how a float is rounded.
\<close>

datatype pyval = PNone | PBool bool | PInt int | PFloat real | PStr string

text \<open>
  A field's schema entry. The \<open>type\<close> key may be missing, a single string or a list of
  strings; \<open>format\<close> is optional.
\<close>

datatype type_decl = TOne string | TMany "string list"

record field_schema =
  ftype :: "type_decl option"
  fformat :: "string option"

datatype exn_class =
  Exception | ValueError | KeyError | TypeError | AttributeError | OverflowError
  | InsightsJobTimeout

text \<open>
  An exception is its class, the format string of its message as the source writes it,
  and the arguments given to \<open>str.format\<close>.
\<close>

datatype fmt_arg = AStr string | ASchema field_schema | ANat nat

datatype exn = Exn exn_class string "fmt_arg list"

fun exn_cls :: "exn \<Rightarrow> exn_class" where
  "exn_cls (Exn c m args) = c"

fun class_name :: "exn_class \<Rightarrow> string" where
  "class_name Exception = ''Exception''"
| "class_name ValueError = ''ValueError''"
| "class_name KeyError = ''KeyError''"
| "class_name TypeError = ''TypeError''"
| "class_name AttributeError = ''AttributeError''"
| "class_name OverflowError = ''OverflowError''"
| "class_name InsightsJobTimeout = ''InsightsJobTimeout''"

text \<open>
  What the interpreter supplies and the module does not define: the conversions
  \<open>int(value)\<close> and \<open>float(value)\<close>, and the attribute access \<open>e.message\<close> on a caught
  exception. They are parameters of the model.
\<close>

record builtins =
  int_conv :: "pyval \<Rightarrow> exn + pyval"
  float_conv :: "pyval \<Rightarrow> exn + pyval"
  message_attr :: "exn \<Rightarrow> exn + string"

text \<open>Truthiness, as \<open>bool(value)\<close> and \<open>not value\<close> compute it.\<close>

fun truthy :: "pyval \<Rightarrow> bool" where
  "truthy PNone = False"
| "truthy (PBool b) = b"
| "truthy (PInt i) = (i \<noteq> 0)"
| "truthy (PFloat r) = (r \<noteq> 0)"
| "truthy (PStr s) = (s \<noteq> [])"

section \<open>Field coercion: \<open>transform_field\<close> and \<open>transform_fields\<close>\<close>

definition transform_field :: "builtins \<Rightarrow> pyval \<Rightarrow> string \<Rightarrow> string option \<Rightarrow> exn + pyval" where
  "transform_field B v field_type field_format =
     (if field_format = Some ''date-time'' then Inr v
      else if field_type = ''boolean'' then Inr (PBool (truthy v))
      else if field_type = ''integer'' then int_conv B v
      else if field_type = ''number'' then float_conv B v
      else if field_type = ''string'' then Inr v
      else Inl (Exn ValueError ''Unsuppported type {}'' [AStr field_type]))"

text \<open>\<open>row[field_name]\<close>: a missing key raises KeyError.\<close>

definition row_get :: "(string \<rightharpoonup> pyval) \<Rightarrow> string \<Rightarrow> exn + pyval" where
  "row_get row k = (case row k of None \<Rightarrow> Inl (Exn KeyError ''{!r}'' [AStr k]) | Some v \<Rightarrow> Inr v)"

text \<open>
  The \<open>for field_type in field_types\<close> loop with its \<open>try\<close>: the subscript
  \<open>row[field_name]\<close> is evaluated inside the \<open>try\<close>, before \<open>transform_field\<close> is
  called, and every exception is caught and appended to \<open>errors\<close>. \<open>Inr\<close> is the value
  stored at the \<open>break\<close>, \<open>Inl\<close> the errors the \<open>else\<close> branch of the loop receives.
\<close>

fun try_types ::
  "builtins \<Rightarrow> (string \<rightharpoonup> pyval) \<Rightarrow> string \<Rightarrow> string option \<Rightarrow> string list \<Rightarrow> exn list
    \<Rightarrow> exn list + pyval" where
  "try_types B row field_name fmt [] errors = Inl errors"
| "try_types B row field_name fmt (field_type # rest) errors =
     (case (case row_get row field_name of
              Inl e \<Rightarrow> Inl e
            | Inr v \<Rightarrow> transform_field B v field_type fmt) of
        Inr v \<Rightarrow> Inr v
      | Inl e \<Rightarrow> try_types B row field_name fmt rest (errors @ [e]))"

text \<open>
  \<open>"\n\t".join(e.message for e in errors)\<close>: the messages are fetched in order and the
  first failing attribute access raises.
\<close>

fun messages :: "builtins \<Rightarrow> exn list \<Rightarrow> exn + string list" where
  "messages B [] = Inr []"
| "messages B (e # es) =
     (case message_attr B e of
        Inl a \<Rightarrow> Inl a
      | Inr m \<Rightarrow> (case messages B es of Inl a \<Rightarrow> Inl a | Inr ms \<Rightarrow> Inr (m # ms)))"

fun join :: "string \<Rightarrow> string list \<Rightarrow> string" where
  "join sep [] = []"
| "join sep [m] = m"
| "join sep (m # ms) = m @ sep @ join sep ms"

definition no_match_format :: string where
  "no_match_format =
     ''Field {} does not match schema {}'' @ [CHR 0x0A] @ ''Errors:'' @ [CHR 0x0A, CHR 0x09] @ ''{}''"

text \<open>
  One pass of the outer loop body for the entry \<open>(field_name, field_schema)\<close>. The first
  component is the entry afterwards: \<open>field_types.remove("null")\<close> changes the schema's
  own list when \<open>type\<close> is a list, and a fresh one-element list when it is a string.
\<close>

definition transform_entry ::
  "builtins \<Rightarrow> (string \<rightharpoonup> pyval) \<Rightarrow> string \<Rightarrow> field_schema \<Rightarrow> field_schema \<times> (exn + pyval)" where
  "transform_entry B row field_name fs =
     (case ftype fs of
        None \<Rightarrow> (fs, Inl (Exn ValueError ''Field {} schema missing type'' [AStr field_name]))
      | Some decl \<Rightarrow>
          (let listed = (case decl of TMany ts \<Rightarrow> ts | TOne t \<Rightarrow> [t]);
               nullable = (''null'' \<in> set listed);
               field_types = (if nullable then remove1 ''null'' listed else listed);
               fs' = (case decl of TMany ts \<Rightarrow> fs\<lparr>ftype := Some (TMany field_types)\<rparr> | TOne t \<Rightarrow> fs)
           in if \<not> nullable \<and> row field_name = None
              then (fs', Inl (Exn ValueError ''{} not in row and not null'' [AStr field_name]))
              else (case try_types B row field_name (fformat fs') field_types [] of
                      Inr v \<Rightarrow> (fs', Inr v)
                    | Inl errors \<Rightarrow>
                        (case messages B errors of
                           Inl a \<Rightarrow> (fs', Inl a)
                         | Inr ms \<Rightarrow>
                             (fs', Inl (Exn ValueError no_match_format
                                [AStr field_name, ASchema fs', AStr (join [CHR 0x0A, CHR 0x09] ms)]))))))"

text \<open>
  The loop over \<open>schema['schema']['properties'].items()\<close>, in iteration order. The
  result is the properties afterwards and either the exception raised or \<open>rtn\<close>.
\<close>

fun transform_loop ::
  "builtins \<Rightarrow> (string \<rightharpoonup> pyval) \<Rightarrow> (string \<times> field_schema) list \<Rightarrow> (string \<rightharpoonup> pyval)
    \<Rightarrow> (string \<times> field_schema) list \<times> (exn + (string \<rightharpoonup> pyval))" where
  "transform_loop B row [] rtn = ([], Inr rtn)"
| "transform_loop B row ((field_name, fs) # rest) rtn =
     (case transform_entry B row field_name fs of
        (fs', Inl e) \<Rightarrow> ((field_name, fs') # rest, Inl e)
      | (fs', Inr v) \<Rightarrow>
          (case transform_loop B row rest (rtn(field_name \<mapsto> v)) of
             (rest', r) \<Rightarrow> ((field_name, fs') # rest', r)))"

definition transform_fields ::
  "builtins \<Rightarrow> (string \<rightharpoonup> pyval) \<Rightarrow> (string \<times> field_schema) list
    \<Rightarrow> (string \<times> field_schema) list \<times> (exn + (string \<rightharpoonup> pyval))" where
  "transform_fields B row properties = transform_loop B row properties Map.empty"

subsection \<open>The built-ins of Python 3 on the scalars of the examples\<close>

text \<open>
  \<open>python3\<close> instantiates the parameters for evaluating examples. It follows CPython 3
  on \<open>None\<close>, booleans, integers and floats, and on strings made of blanks around an
  optional sign and ASCII decimal digits (for \<open>float\<close> also a fractional part). The
  other notations CPython reads (exponents, \<open>inf\<close>, \<open>nan\<close>, digit separators) are
  rejected here and occur in no example. An exception object has no attribute
  \<open>message\<close> in Python 3, the interpreter the module's first line asks for.
\<close>

definition is_space :: "char \<Rightarrow> bool" where
  "is_space c = (of_char c \<in> {9, 10, 11, 12, 13, 28, 29, 30, 31, 32, 133, 160 :: nat})"

definition strip :: "string \<Rightarrow> string" where
  "strip s = rev (dropWhile is_space (rev (dropWhile is_space s)))"

definition is_digit :: "char \<Rightarrow> bool" where
  "is_digit c = (48 \<le> (of_char c :: nat) \<and> (of_char c :: nat) \<le> 57)"

fun digits :: "string \<Rightarrow> nat \<Rightarrow> nat option" where
  "digits [] acc = Some acc"
| "digits (c # cs) acc = (if is_digit c then digits cs (10 * acc + (of_char c - 48)) else None)"

definition unsigned :: "string \<Rightarrow> int option" where
  "unsigned s = (if s = [] then None else map_option int (digits s 0))"

definition parse_int :: "string \<Rightarrow> int option" where
  "parse_int s =
     (case strip s of
        [] \<Rightarrow> None
      | c # cs \<Rightarrow>
          if c = CHR ''-'' then map_option uminus (unsigned cs)
          else if c = CHR ''+'' then unsigned cs
          else unsigned (c # cs))"

definition unsigned_real :: "string \<Rightarrow> real option" where
  "unsigned_real s =
     (let ip = takeWhile is_digit s; r = dropWhile is_digit s
      in case r of
           [] \<Rightarrow> map_option real_of_int (unsigned ip)
         | d # fp \<Rightarrow>
             if d = CHR ''.'' \<and> (ip \<noteq> [] \<or> fp \<noteq> [])
             then map_option (\<lambda>n. real n / 10 ^ length fp) (digits (ip @ fp) 0)
             else None)"

definition parse_real :: "string \<Rightarrow> real option" where
  "parse_real s =
     (case strip s of
        [] \<Rightarrow> None
      | c # cs \<Rightarrow>
          if c = CHR ''-'' then map_option uminus (unsigned_real cs)
          else if c = CHR ''+'' then unsigned_real cs
          else unsigned_real (c # cs))"

fun py_int :: "pyval \<Rightarrow> exn + pyval" where
  "py_int PNone = Inl (Exn TypeError ''int() argument must be a string or a number'' [])"
| "py_int (PBool b) = Inr (PInt (if b then 1 else 0))"
| "py_int (PInt i) = Inr (PInt i)"
| "py_int (PFloat r) = Inr (PInt (if 0 \<le> r then \<lfloor>r\<rfloor> else \<lceil>r\<rceil>))"
| "py_int (PStr s) =
     (case parse_int s of
        None \<Rightarrow> Inl (Exn ValueError ''invalid literal for int() with base 10: {!r}'' [AStr s])
      | Some i \<Rightarrow> Inr (PInt i))"

fun py_float :: "pyval \<Rightarrow> exn + pyval" where
  "py_float PNone = Inl (Exn TypeError ''float() argument must be a string or a number'' [])"
| "py_float (PBool b) = Inr (PFloat (if b then 1 else 0))"
| "py_float (PInt i) = Inr (PFloat (real_of_int i))"
| "py_float (PFloat r) = Inr (PFloat r)"
| "py_float (PStr s) =
     (case parse_real s of
        None \<Rightarrow> Inl (Exn ValueError ''could not convert string to float: {!r}'' [AStr s])
      | Some r \<Rightarrow> Inr (PFloat r))"

definition no_attribute :: "string \<Rightarrow> string \<Rightarrow> exn" where
  "no_attribute cls attr = Exn AttributeError ''{!r} object has no attribute {!r}'' [AStr cls, AStr attr]"

definition python3 :: builtins where
  "python3 = \<lparr>int_conv = py_int, float_conv = py_float,
              message_attr = (\<lambda>e. Inl (no_attribute (class_name (exn_cls e)) ''message''))\<rparr>"

section \<open>The watermark store: class \<open>State\<close>\<close>

text \<open>
  A parsed date is an instant on the UTC time line, counted in microseconds (the
  resolution of the date library). \<open>pendulum.parse\<close> and \<open>to_date_string\<close> belong to
  that library and are parameters of the model.
\<close>

type_synonym instant = int

record pendulum =
  parse :: "string \<Rightarrow> exn + instant"
  to_date_string :: "instant \<Rightarrow> string"

definition days :: "int \<Rightarrow> int" where
  "days n = n * 86400000000"

record State =
  start_date :: instant
  state :: "string \<rightharpoonup> instant"

text \<open>What a stream yields: a record message, a state message, or \<open>None\<close>.\<close>

datatype item =
  RecordMessage string "string \<rightharpoonup> pyval"
  | StateMessage "string \<rightharpoonup> string"
  | NoneItem

fun parse_items :: "pendulum \<Rightarrow> (string \<times> string) list \<Rightarrow> exn + (string \<rightharpoonup> instant)" where
  "parse_items P [] = Inr Map.empty"
| "parse_items P ((k, v) # rest) =
     (case parse P v of
        Inl e \<Rightarrow> Inl e
      | Inr d \<Rightarrow> (case parse_items P rest of Inl e \<Rightarrow> Inl e | Inr m \<Rightarrow> Inr (m(k \<mapsto> d))))"

text \<open>\<open>State.__init__\<close>; the persisted state is \<open>None\<close> or the items of a dict.\<close>

definition State_init :: "pendulum \<Rightarrow> string \<Rightarrow> (string \<times> string) list option \<Rightarrow> exn + State" where
  "State_init P start persisted =
     (case parse P start of
        Inl e \<Rightarrow> Inl e
      | Inr d \<Rightarrow>
          (case persisted of
             None \<Rightarrow> Inr \<lparr>start_date = d, state = Map.empty\<rparr>
           | Some kvs \<Rightarrow>
               (case parse_items P kvs of
                  Inl e \<Rightarrow> Inl e
                | Inr m \<Rightarrow> Inr \<lparr>start_date = d, state = m\<rparr>)))"

text \<open>\<open>State._get\<close>\<close>

definition State__get :: "State \<Rightarrow> string \<Rightarrow> instant" where
  "State__get st stream_name =
     (case state st stream_name of Some d \<Rightarrow> d | None \<Rightarrow> start_date st)"

text \<open>\<open>State.get\<close>\<close>

definition State_get :: "pendulum \<Rightarrow> State \<Rightarrow> string \<Rightarrow> string" where
  "State_get P st stream_name = to_date_string P (State__get st stream_name)"

definition snapshot :: "pendulum \<Rightarrow> State \<Rightarrow> (string \<rightharpoonup> string)" where
  "snapshot P st = (\<lambda>k. map_option (to_date_string P) (state st k))"

text \<open>\<open>State.advance\<close>: the state afterwards and the message returned or the exception.\<close>

definition advance :: "pendulum \<Rightarrow> State \<Rightarrow> string \<Rightarrow> string \<Rightarrow> State \<times> (exn + item)" where
  "advance P st stream_name date =
     (case parse P date of
        Inl e \<Rightarrow> (st, Inl e)
      | Inr d \<Rightarrow>
          (let st' = (if d > State__get st stream_name
                      then st\<lparr>state := (state st)(stream_name \<mapsto> d)\<rparr> else st)
           in (st', Inr (StateMessage (snapshot P st')))))"

text \<open>A run of \<open>advance\<close> calls on one stream, stopping at the first exception.\<close>

fun advance_all :: "pendulum \<Rightarrow> State \<Rightarrow> string \<Rightarrow> string list \<Rightarrow> exn + State" where
  "advance_all P st stream_name [] = Inr st"
| "advance_all P st stream_name (date # rest) =
     (case advance P st stream_name date of
        (st', Inl e) \<Rightarrow> Inl e
      | (st', Inr m) \<Rightarrow> advance_all P st' stream_name rest)"

text \<open>
  Attribute lookup on a \<open>State\<close> object: the four methods of the class and the two fields
  \<open>__init__\<close> sets. Any other name the module uses raises AttributeError.
\<close>

datatype State_member = M_init | M__get | M_get | M_advance | F_start_date | F_state

definition State_members :: "(string \<times> State_member) list" where
  "State_members =
     [(''__init__'', M_init), (''_get'', M__get), (''get'', M_get), (''advance'', M_advance),
      (''start_date'', F_start_date), (''state'', F_state)]"

definition State_getattr :: "string \<Rightarrow> exn + State_member" where
  "State_getattr attr =
     (case map_of State_members attr of
        None \<Rightarrow> Inl (no_attribute ''State'' attr)
      | Some m \<Rightarrow> Inr m)"

text \<open>
  A member called with the two positional arguments \<open>(self.name, date)\<close>. \<open>advance\<close> and
  \<open>__init__\<close> take two; the other methods take one and the fields are not callable.
\<close>

fun call_member :: "pendulum \<Rightarrow> State \<Rightarrow> State_member \<Rightarrow> string \<Rightarrow> pyval \<Rightarrow> State \<times> (exn + item)" where
  "call_member P st M_advance stream_name (PStr date) = advance P st stream_name date"
| "call_member P st M_advance stream_name v =
     (st, Inl (Exn TypeError ''pendulum.parse: not a string'' []))"
| "call_member P st M_init stream_name v =
     (case parse P stream_name of
        Inl e \<Rightarrow> (st, Inl e)
      | Inr d \<Rightarrow>
          (if v = PNone then (\<lparr>start_date = d, state = Map.empty\<rparr>, Inr NoneItem)
           else (st\<lparr>start_date := d\<rparr>, Inl (Exn AttributeError ''no attribute {!r}'' [AStr ''items'']))))"
| "call_member P st M__get stream_name v =
     (st, Inl (Exn TypeError ''_get() takes 2 positional arguments but 3 were given'' []))"
| "call_member P st M_get stream_name v =
     (st, Inl (Exn TypeError ''get() takes 2 positional arguments but 3 were given'' []))"
| "call_member P st F_start_date stream_name v =
     (st, Inl (Exn TypeError ''object is not callable'' []))"
| "call_member P st F_state stream_name v =
     (st, Inl (Exn TypeError ''object is not callable'' []))"

definition State_call :: "pendulum \<Rightarrow> State \<Rightarrow> string \<Rightarrow> string \<Rightarrow> pyval \<Rightarrow> State \<times> (exn + item)" where
  "State_call P st attr stream_name v =
     (case State_getattr attr of
        Inl e \<Rightarrow> (st, Inl e)
      | Inr m \<Rightarrow> call_member P st m stream_name v)"

section \<open>The insights stream: class \<open>AdsInsights\<close>\<close>

definition INSIGHTS_MAX_WAIT_TO_START_SECONDS :: nat where
  "INSIGHTS_MAX_WAIT_TO_START_SECONDS = 5 * 60"

definition INSIGHTS_MAX_WAIT_TO_FINISH_SECONDS :: nat where
  "INSIGHTS_MAX_WAIT_TO_FINISH_SECONDS = 30 * 60"

definition ALL_ACTION_ATTRIBUTION_WINDOWS :: "string list" where
  "ALL_ACTION_ATTRIBUTION_WINDOWS =
     [''1d_click'', ''7d_click'', ''28d_click'', ''1d_view'', ''7d_view'', ''28d_view'']"

definition ALL_ACTION_BREAKDOWNS :: "string list" where
  "ALL_ACTION_BREAKDOWNS = [''action_type'', ''action_target_id'', ''action_destination'']"

text \<open>
  The attributes of the stream object; \<open>selected_fields\<close> is what \<open>self.fields()\<close> returns. The
  \<open>State\<close> object it refers to is shared and mutable, so it is threaded separately.
\<close>

record AdsInsights =
  name :: string
  selected_fields :: "string list"
  breakdowns :: "string list"
  action_breakdowns :: "string list"
  level :: "string option"
  action_attribution_windows :: "string list"
  time_increment :: nat
  limit :: nat

record params =
  p_level :: "string option"
  p_action_breakdowns :: "string list"
  p_breakdowns :: "string list"
  p_limit :: nat
  p_fields :: "string list"
  p_time_increment :: nat
  p_action_attribution_windows :: "string list"
  p_time_ranges :: "(string \<times> string) list"

definition mk_params :: "pendulum \<Rightarrow> AdsInsights \<Rightarrow> instant \<Rightarrow> instant \<Rightarrow> params" where
  "mk_params P self since until =
     \<lparr>p_level = level self,
      p_action_breakdowns = action_breakdowns self,
      p_breakdowns = breakdowns self,
      p_limit = limit self,
      p_fields = selected_fields self,
      p_time_increment = time_increment self,
      p_action_attribution_windows = action_attribution_windows self,
      p_time_ranges = [(to_date_string P since, to_date_string P until)]\<rparr>"

subsection \<open>\<open>backoff.on_exception\<close>\<close>

text \<open>
  The decorator of the retry library: the wrapped function is called again while it
  raises an exception of the given class, \<open>max_tries\<close> calls at most; another exception,
  or the last one, is raised to the caller. \<open>target n\<close> is the outcome of call number
  \<open>n\<close>. The result is paired with the number of calls made. The waits between calls
  (\<open>backoff.expo\<close> with \<open>factor=2\<close>) do not change the outcome and are left out.
\<close>

fun retry :: "exn_class \<Rightarrow> nat \<Rightarrow> (nat \<Rightarrow> exn + 'a) \<Rightarrow> nat \<Rightarrow> (exn + 'a) \<times> nat" where
  "retry cls 0 target n = (target n, Suc n)"
| "retry cls (Suc left) target n =
     (case target n of
        Inr v \<Rightarrow> (Inr v, Suc n)
      | Inl e \<Rightarrow> if exn_cls e = cls then retry cls left target (Suc n) else (Inl e, Suc n))"

definition on_exception :: "exn_class \<Rightarrow> nat \<Rightarrow> (nat \<Rightarrow> exn + 'a) \<Rightarrow> (exn + 'a) \<times> nat" where
  "on_exception cls max_tries target = retry cls (max_tries - 1) target 0"

subsection \<open>\<open>job_params\<close>\<close>

text \<open>
  \<open>job_params\<close> is a generator function: calling it runs none of its body and returns a
  generator, created and not yet started, or suspended at the \<open>yield\<close> with the values
  of \<open>since\<close> and \<open>until\<close>.
\<close>

datatype job_params_gen = Created | Suspended instant instant

text \<open>The \<open>while\<close> test on entry and after each \<open>yield\<close>; \<open>now\<close> is the clock read there.\<close>

definition job_params_test ::
  "pendulum \<Rightarrow> AdsInsights \<Rightarrow> instant \<Rightarrow> instant \<Rightarrow> instant \<Rightarrow> (params \<times> job_params_gen) option" where
  "job_params_test P self now since until =
     (if until \<le> now then Some (mk_params P self since until, Suspended since until) else None)"

text \<open>
  One \<open>next\<close> on the generator: an exception, \<open>None\<close> when the generator is exhausted, or
  the dict yielded and the generator suspended again.
\<close>

fun job_params_next ::
  "pendulum \<Rightarrow> AdsInsights \<Rightarrow> State \<Rightarrow> instant \<Rightarrow> job_params_gen
    \<Rightarrow> exn + (params \<times> job_params_gen) option" where
  "job_params_next P self st now Created =
     (case parse P (State_get P st (name self)) of
        Inl e \<Rightarrow> Inl e
      | Inr until \<Rightarrow> Inr (job_params_test P self now (until - days 28) until))"
| "job_params_next P self st now (Suspended since until) =
     Inr (job_params_test P self now (since + days 1) (until + days 1))"

text \<open>The decorated \<open>job_params\<close>: the call itself, which only creates the generator.\<close>

definition job_params :: "(exn + job_params_gen) \<times> nat" where
  "job_params = on_exception InsightsJobTimeout 3 (\<lambda>n. Inr Created)"



subsection \<open>\<open>run_job\<close>\<close>

text \<open>
  What one pass of the polling loop observes: the time elapsed since \<open>time_start\<close>, read
  before the job is read again, and the status, percentage and id then read.
\<close>

record poll =
  duration :: real
  async_status :: string
  async_percent_completion :: int
  job_id :: string

text \<open>
  The remote side of one job: the exception \<open>get_insights\<close> raises, if any, the
  observations of the successive polls, and the records of \<open>get_result\<close>.
\<close>

record job_env =
  submit_error :: "exn option"
  polls :: "poll list"
  result :: "(string \<rightharpoonup> pyval) list"

definition did_not_start :: "string \<Rightarrow> exn" where
  "did_not_start jid =
     Exn Exception ''Insights job {} did not start after {} seconds''
       [AStr jid, ANat INSIGHTS_MAX_WAIT_TO_START_SECONDS]"

definition did_not_complete :: "string \<Rightarrow> exn" where
  "did_not_complete jid =
     Exn Exception ''Insights job {} did not complete after {} seconds''
       [AStr jid, ANat INSIGHTS_MAX_WAIT_TO_FINISH_SECONDS]"

text \<open>
  The \<open>while\<close> loop. \<open>status\<close> starts as \<open>None\<close>, so the body runs at least once; the
  loop test after the sleep reads the status just observed. \<open>None\<close>: the observations
  given end before the loop does.
\<close>

fun poll_loop :: "poll list \<Rightarrow> (exn + poll) option" where
  "poll_loop [] = None"
| "poll_loop (p # ps) =
     (if duration p > real INSIGHTS_MAX_WAIT_TO_START_SECONDS \<and> async_percent_completion p = 0
      then Some (Inl (did_not_start (job_id p)))
      else if duration p > real INSIGHTS_MAX_WAIT_TO_FINISH_SECONDS
              \<and> async_status p \<noteq> ''Job Completed''
      then Some (Inl (did_not_complete (job_id p)))
      else if async_status p \<noteq> ''Job Completed'' then poll_loop ps
      else Some (Inr p))"

definition run_job :: "job_env \<Rightarrow> (exn + poll) option" where
  "run_job env =
     (case submit_error env of
        Some e \<Rightarrow> Some (Inl e)
      | None \<Rightarrow> poll_loop (polls env))"

text \<open>A poll after which the loop goes on: it neither raises nor sees the job completed.\<close>

definition pending :: "poll \<Rightarrow> bool" where
  "pending q = (poll_loop [q] = None)"

subsection \<open>\<open>__iter__\<close>\<close>

text \<open>\<open>a < b\<close> on values: strings by code point, numbers by value, TypeError otherwise.\<close>

fun number :: "pyval \<Rightarrow> real option" where
  "number (PBool b) = Some (if b then 1 else 0)"
| "number (PInt i) = Some (real_of_int i)"
| "number (PFloat r) = Some r"
| "number v = None"

fun py_less :: "pyval \<Rightarrow> pyval \<Rightarrow> exn + bool" where
  "py_less (PStr a) (PStr b) = Inr (a < b)"
| "py_less x y =
     (case (number x, number y) of
        (Some a, Some b) \<Rightarrow> Inr (a < b)
      | _ \<Rightarrow> Inl (Exn TypeError ''unorderable types'' []))"

text \<open>
  The loop over \<open>job.get_result()\<close>: \<open>m\<close> is \<open>min_date_start_for_job\<close> and \<open>out\<close> what
  has been yielded so far.
\<close>

fun drain_result ::
  "string \<Rightarrow> pyval \<Rightarrow> (string \<rightharpoonup> pyval) list \<Rightarrow> item list \<Rightarrow> item list \<times> (exn + pyval)" where
  "drain_result stream m [] out = (out, Inr m)"
| "drain_result stream m (rec # recs) out =
     (case row_get rec ''date_start'' of
        Inl e \<Rightarrow> (out, Inl e)
      | Inr d \<Rightarrow>
          (if \<not> truthy m then drain_result stream d recs (out @ [RecordMessage stream rec])
           else (case py_less d m of
                   Inl e \<Rightarrow> (out, Inl e)
                 | Inr b \<Rightarrow>
                     drain_result stream (if b then d else m) recs
                       (out @ [RecordMessage stream rec]))))"

text \<open>
  The body of the \<open>for params in self.job_params()\<close> loop for one job: the state
  afterwards, everything yielded so far, and the exception raised or the item that
  \<open>self.state.update(self.name, min_date_start_for_job)\<close> returns and the body yields.
  \<open>None\<close>: the polling of the job does not end.
\<close>

definition iter_body ::
  "pendulum \<Rightarrow> AdsInsights \<Rightarrow> State \<Rightarrow> job_env \<Rightarrow> item list \<Rightarrow> (State \<times> item list \<times> exn option) option" where
  "iter_body P self st env out =
     (case run_job env of
        None \<Rightarrow> None
      | Some (Inl e) \<Rightarrow> Some (st, out, Some e)
      | Some (Inr job) \<Rightarrow>
          (case drain_result (name self) PNone (result env) out of
             (out', Inl e) \<Rightarrow> Some (st, out', Some e)
           | (out', Inr m) \<Rightarrow>
               (case State_call P st ''update'' (name self) m of
                  (st', Inl e) \<Rightarrow> Some (st', out', Some e)
                | (st', Inr y) \<Rightarrow> Some (st', out' @ [y], None))))"

text \<open>
  The \<open>for\<close> loop of \<open>__iter__\<close>, drawing from the generator \<open>g\<close>; \<open>env k\<close> is the remote
  side of the \<open>k\<close>-th job. The result is the state at the end, the items yielded in
  order, and the exception that ended the iteration, if one did.
\<close>

partial_function (option) iter_loop ::
  "pendulum \<Rightarrow> AdsInsights \<Rightarrow> (nat \<Rightarrow> instant) \<Rightarrow> (nat \<Rightarrow> job_env) \<Rightarrow> nat \<Rightarrow> job_params_gen
    \<Rightarrow> State \<Rightarrow> item list \<Rightarrow> (State \<times> item list \<times> exn option) option" where
  "iter_loop P self clock env k g st out =
     (case job_params_next P self st (clock k) g of
        Inl e \<Rightarrow> Some (st, out, Some e)
      | Inr None \<Rightarrow> Some (st, out, None)
      | Inr (Some (d, g')) \<Rightarrow>
          (case iter_body P self st (env k) out of
             None \<Rightarrow> None
           | Some (st', out', Some e) \<Rightarrow> Some (st', out', Some e)
           | Some (st', out', None) \<Rightarrow> iter_loop P self clock env (Suc k) g' st' out'))"

definition AdsInsights_iter ::
  "pendulum \<Rightarrow> AdsInsights \<Rightarrow> (nat \<Rightarrow> instant) \<Rightarrow> (nat \<Rightarrow> job_env) \<Rightarrow> State
    \<Rightarrow> (State \<times> item list \<times> exn option) option" where
  "AdsInsights_iter P self clock env st =
     (case fst job_params of
        Inl e \<Rightarrow> Some (st, [], Some e)
      | Inr g \<Rightarrow> iter_loop P self clock env 0 g st [])"

subsection \<open>The date library on ISO dates\<close>

text \<open>
  \<open>iso\<close> instantiates the date library for evaluating examples: \<open>parse\<close> reads a
  calendar date written \<open>YYYY-MM-DD\<close> as midnight UTC of that day and rejects any other
  string; \<open>to_date_string\<close> writes the calendar date of an instant. Days are counted
  from 1970-01-01 in the proleptic Gregorian calendar.
\<close>

definition days_from_civil :: "int \<Rightarrow> int \<Rightarrow> int \<Rightarrow> int" where
  "days_from_civil y m d =
     (let y' = (if m \<le> 2 then y - 1 else y);
          era = y' div 400;
          yoe = y' - era * 400;
          doy = (153 * (if m > 2 then m - 3 else m + 9) + 2) div 5 + d - 1;
          doe = yoe * 365 + yoe div 4 - yoe div 100 + doy
      in era * 146097 + doe - 719468)"

definition civil_from_days :: "int \<Rightarrow> int \<times> int \<times> int" where
  "civil_from_days z =
     (let z' = z + 719468;
          era = z' div 146097;
          doe = z' - era * 146097;
          yoe = (doe - doe div 1460 + doe div 36524 - doe div 146096) div 365;
          doy = doe - (365 * yoe + yoe div 4 - yoe div 100);
          mp = (5 * doy + 2) div 153;
          d = doy - (153 * mp + 2) div 5 + 1;
          m = (if mp < 10 then mp + 3 else mp - 9)
      in (yoe + era * 400 + (if m \<le> 2 then 1 else 0), m, d))"

definition unparsable :: "string \<Rightarrow> exn" where
  "unparsable s = Exn ValueError ''Unable to parse string [{}]'' [AStr s]"

definition iso_parse :: "string \<Rightarrow> exn + instant" where
  "iso_parse s =
     (if length s = 10 \<and> s ! 4 = CHR ''-'' \<and> s ! 7 = CHR ''-''
      then (case (digits (take 4 s) 0, digits (take 2 (drop 5 s)) 0, digits (drop 8 s) 0) of
              (Some y, Some m, Some d) \<Rightarrow>
                if civil_from_days (days_from_civil (int y) (int m) (int d)) = (int y, int m, int d)
                then Inr (days (days_from_civil (int y) (int m) (int d)))
                else Inl (unparsable s)
            | _ \<Rightarrow> Inl (unparsable s))
      else Inl (unparsable s))"

definition digit_char :: "int \<Rightarrow> char" where
  "digit_char n = ''0123456789'' ! nat (n mod 10)"

definition iso_date_string :: "instant \<Rightarrow> string" where
  "iso_date_string t =
     (case civil_from_days (t div 86400000000) of
        (y, m, d) \<Rightarrow>
          [digit_char (y div 1000), digit_char (y div 100), digit_char (y div 10), digit_char y]
          @ ''-'' @ [digit_char (m div 10), digit_char m]
          @ ''-'' @ [digit_char (d div 10), digit_char d])"

definition iso :: pendulum where
  "iso = \<lparr>parse = iso_parse, to_date_string = iso_date_string\<rparr>"

text \<open>
  The stream \<open>initialize_stream\<close> builds for the name \<open>ads_insights\<close>, with the default
  attributes of the class.
\<close>

definition ads_insights :: "string list \<Rightarrow> AdsInsights" where
  "ads_insights selected =
     \<lparr>name = ''ads_insights'', selected_fields = selected, breakdowns = [],
      action_breakdowns = ALL_ACTION_BREAKDOWNS, level = None,
      action_attribution_windows = ALL_ACTION_ATTRIBUTION_WINDOWS,
      time_increment = 1, limit = 100\<rparr>"

text \<open>Shorthands for the polls and jobs of the examples.\<close>

definition poll_at :: "real \<Rightarrow> string \<Rightarrow> int \<Rightarrow> poll" where
  "poll_at t status percent =
     \<lparr>duration = t, async_status = status, async_percent_completion = percent, job_id = ''j1''\<rparr>"

definition job_with :: "poll list \<Rightarrow> (string \<rightharpoonup> pyval) list \<Rightarrow> job_env" where
  "job_with ps recs = \<lparr>submit_error = None, polls = ps, result = recs\<rparr>"

text \<open>A result record with nothing but its \<open>date_start\<close>, and a fresh state.\<close>

definition dated :: "string \<Rightarrow> (string \<rightharpoonup> pyval)" where
  "dated d = [''date_start'' \<mapsto> PStr d]"

definition state0 :: State where
  "state0 = \<lparr>start_date = days 18628, state = Map.empty\<rparr>"

text \<open>A schema entry whose \<open>type\<close> is a list.\<close>

definition typed :: "string list \<Rightarrow> string option \<Rightarrow> field_schema" where
  "typed ts fmt = \<lparr>ftype = Some (TMany ts), fformat = fmt\<rparr>"

section \<open>Evaluating the date library\<close>

lemma days_from_civil_ex:
  "days_from_civil 2021 1 1 = 18628" "days_from_civil 2021 1 2 = 18629"
  "days_from_civil 2021 1 3 = 18630"
  unfolding days_from_civil_def Let_def by simp_all

lemma civil_from_days_ex:
  "civil_from_days 18628 = (2021, 1, 1)" "civil_from_days 18629 = (2021, 1, 2)"
  "civil_from_days 18630 = (2021, 1, 3)"
  unfolding civil_from_days_def Let_def by simp_all

lemma iso_parse_ex:
  "parse iso ''2021-01-01'' = Inr (days 18628)"
  "parse iso ''2021-01-02'' = Inr (days 18629)"
  "parse iso ''2021-01-03'' = Inr (days 18630)"
  unfolding iso_def iso_parse_def
  by (simp_all add: is_digit_def days_from_civil_ex civil_from_days_ex)

lemma iso_date_string_ex:
  "to_date_string iso (days 18628) = ''2021-01-01''"
  "to_date_string iso (days 18630) = ''2021-01-03''"
  unfolding iso_def iso_date_string_def days_def
  by (simp_all add: civil_from_days_ex digit_char_def)


section \<open>The watermark is the maximum of the dates seen\<close>

lemma State__get_advance:
  "parse P date = Inr d \<Longrightarrow> State__get (fst (advance P st s date)) s = max (State__get st s) d"
  by (simp add: advance_def State__get_def Let_def)

lemma advance_all_cursor:
  "map (parse P) dates = map Inr ds \<Longrightarrow>
   \<exists>st'. advance_all P st s dates = Inr st' \<and> State__get st' s = Max (set (State__get st s # ds))"
proof (induction dates arbitrary: ds st)
  case Nil
  then show ?case by simp
next
  case (Cons date dates)
  then obtain d ds' where ds: "ds = d # ds'" and pd: "parse P date = Inr d"
    and rest: "map (parse P) dates = map Inr ds'"
    by (cases ds) auto
  let ?st1 = "fst (advance P st s date)"
  have step: "advance_all P st s (date # dates) = advance_all P ?st1 s dates"
    using pd by (simp add: advance_def Let_def)
  from Cons.IH [OF rest, of ?st1] obtain st' where
    r: "advance_all P ?st1 s dates = Inr st'"
    and c: "State__get st' s = Max (set (State__get ?st1 s # ds'))" by blast
  have "Max (set (State__get ?st1 s # ds')) = Max (set (State__get st s # ds))"
    unfolding ds State__get_advance [OF pd]
    by (cases "ds' = []") (simp_all add: max.assoc max.commute max.left_commute)
  with r c step show ?case by simp
qed

lemma parsed_dates:
  assumes "map (parse P) dates = map Inr ds"
  shows "ds = map (\<lambda>x. projr (parse P x)) dates"
proof -
  have "map projr (map (parse P) dates) = map projr (map Inr ds)"
    using assms by simp
  then show ?thesis by (simp add: comp_def)
qed

lemma parse_members:
  assumes "map (parse P) dates = map Inr ds" and "x \<in> set dates"
  shows "parse P x = Inr (projr (parse P x))"
proof -
  have "parse P x \<in> set (map (parse P) dates)" using assms(2) by simp
  then have "parse P x \<in> set (map Inr ds)" using assms(1) by simp
  then show ?thesis by auto
qed

lemma advance_all_same_set:
  assumes p: "map (parse P) dates = map Inr ds" and eq: "set dates' = set dates"
  shows "\<exists>st''. advance_all P st s dates' = Inr st''
           \<and> State__get st'' s = Max (set (State__get st s # ds))"
proof -
  let ?ds' = "map (\<lambda>x. projr (parse P x)) dates'"
  have p': "map (parse P) dates' = map Inr ?ds'"
    using parse_members [OF p] eq by (simp add: comp_def)
  have "set ?ds' = set ds"
    unfolding parsed_dates [OF p] using eq by simp
  with advance_all_cursor [OF p', of st s] show ?thesis by simp
qed

text \<open>
  C1. When the dates of a run of \<open>advance\<close> calls on one stream parse to \<open>ds\<close>, every call
  returns, and the cursor of the stream afterwards is the maximum of \<open>ds\<close> and the cursor
  before. Any other run over the same dates, in another order or with replays, ends at
  the same cursor. One call changes the state only when its date is strictly greater
  than the cursor, and then only by storing that date for the stream.
\<close>

theorem watermark_is_max:
  assumes "map (parse P) dates = map Inr ds"
  shows "(\<exists>st'. advance_all P st s dates = Inr st'
            \<and> State__get st' s = Max (set (State__get st s # ds))
            \<and> (\<forall>dates'. set dates' = set dates \<longrightarrow>
                  (\<exists>st''. advance_all P st s dates' = Inr st''
                     \<and> State__get st'' s = State__get st' s)))
       \<and> (\<forall>date d. parse P date = Inr d \<longrightarrow>
             fst (advance P st s date)
               = (if State__get st s < d then st\<lparr>state := (state st)(s \<mapsto> d)\<rparr> else st))"
proof -
  from advance_all_cursor [OF assms, of st s] obtain st' where
    r: "advance_all P st s dates = Inr st'"
    and c: "State__get st' s = Max (set (State__get st s # ds))" by blast
  have "\<exists>st''. advance_all P st s dates' = Inr st'' \<and> State__get st'' s = State__get st' s"
    if "set dates' = set dates" for dates'
    using advance_all_same_set [OF assms that, of st s] c by simp
  moreover have "fst (advance P st s date)
      = (if State__get st s < d then st\<lparr>state := (state st)(s \<mapsto> d)\<rparr> else st)"
    if "parse P date = Inr d" for date d
    using that by (simp add: advance_def Let_def)
  ultimately show ?thesis using r c by blast
qed

text \<open>
  Witness for C1: from the start date 2021-01-01, the dates 2021-01-03, 2021-01-02 and
  2021-01-03 again leave the cursor at 2021-01-03.
\<close>

theorem watermark_is_max_witness:
  "map (parse iso) [''2021-01-03'', ''2021-01-02'', ''2021-01-03'']
     = map Inr [days 18630, days 18629, days 18630]
   \<and> (\<exists>st'. advance_all iso \<lparr>start_date = days 18628, state = Map.empty\<rparr> ''ads_insights''
               [''2021-01-03'', ''2021-01-02'', ''2021-01-03''] = Inr st'
          \<and> State__get st' ''ads_insights'' = days 18630)"
proof -
  have h: "map (parse iso) [''2021-01-03'', ''2021-01-02'', ''2021-01-03'']
     = map Inr [days 18630, days 18629, days 18630]"
    by (simp add: iso_parse_ex)
  from watermark_is_max [OF h, of "\<lparr>start_date = days 18628, state = Map.empty\<rparr>" "''ads_insights''"]
  obtain st' where
    "advance_all iso \<lparr>start_date = days 18628, state = Map.empty\<rparr> ''ads_insights''
       [''2021-01-03'', ''2021-01-02'', ''2021-01-03''] = Inr st'"
    and "State__get st' ''ads_insights''
       = Max (set (State__get \<lparr>start_date = days 18628, state = Map.empty\<rparr> ''ads_insights''
                    # [days 18630, days 18629, days 18630]))"
    by blast
  then show ?thesis using h by (auto simp add: State__get_def days_def)
qed

section \<open>The windows of \<open>job_params\<close>\<close>



lemma job_params_call: "job_params = (Inr Created, 1)"
  by (simp add: job_params_def on_exception_def numeral_2_eq_2)



section \<open>The outcome of \<open>run_job\<close>\<close>

lemma pending_iff:
  "pending q \<longleftrightarrow>
     \<not> (duration q > 300 \<and> async_percent_completion q = 0)
     \<and> \<not> (duration q > 1800 \<and> async_status q \<noteq> ''Job Completed'')
     \<and> async_status q \<noteq> ''Job Completed''"
  by (simp add: pending_def INSIGHTS_MAX_WAIT_TO_START_SECONDS_def
      INSIGHTS_MAX_WAIT_TO_FINISH_SECONDS_def)

lemma poll_loop_skip_pending:
  "list_all pending pre \<Longrightarrow> poll_loop (pre @ ps) = poll_loop ps"
proof (induction pre)
  case Nil
  then show ?case by simp
next
  case (Cons q pre)
  then have q: "pending q" and pre: "list_all pending pre" by simp_all
  have ih: "poll_loop (pre @ ps) = poll_loop ps"
    using Cons.IH pre by simp
  have "poll_loop ((q # pre) @ ps) = poll_loop (pre @ ps)"
    using q by (auto simp add: pending_def split: if_splits)
  with ih show ?case by simp
qed

text \<open>
  C6, as amended. Take a job whose submission raised nothing and a poll \<open>p\<close> reached
  after polls that all left the loop running. If more than 300 seconds have elapsed and
  the percentage is 0, \<open>run_job\<close> raises the failure "did not start". If more than 1800
  seconds have elapsed, the status is not completed and the percentage is not 0, it
  raises the failure "did not complete". If the status is completed and at most 300
  seconds have elapsed, it returns the job read at that poll.
\<close>

theorem run_job_classification:
  assumes "submit_error env = None" and "polls env = pre @ p # post"
    and "list_all pending pre"
  shows "(duration p > 300 \<and> async_percent_completion p = 0
            \<longrightarrow> run_job env = Some (Inl (did_not_start (job_id p))))
       \<and> (duration p > 1800 \<and> async_status p \<noteq> ''Job Completed''
            \<and> async_percent_completion p \<noteq> 0
            \<longrightarrow> run_job env = Some (Inl (did_not_complete (job_id p))))
       \<and> (async_status p = ''Job Completed'' \<and> duration p \<le> 300
            \<longrightarrow> run_job env = Some (Inr p))"
proof -
  have "run_job env = poll_loop (p # post)"
    using assms by (simp add: run_job_def poll_loop_skip_pending)
  then show ?thesis
    by (simp add: INSIGHTS_MAX_WAIT_TO_START_SECONDS_def INSIGHTS_MAX_WAIT_TO_FINISH_SECONDS_def)
qed

lemmas poll_eval = poll_at_def job_with_def run_job_def
  INSIGHTS_MAX_WAIT_TO_START_SECONDS_def INSIGHTS_MAX_WAIT_TO_FINISH_SECONDS_def

text \<open>
  Witness for C6: after a first poll at 0 seconds, a job still at 0 percent at 301
  seconds, a job at 50 percent at 1801 seconds, and a job completed at 120 seconds.
\<close>

theorem run_job_classification_witness:
  "list_all pending [poll_at 0 ''Job Running'' 0]
   \<and> run_job (job_with [poll_at 0 ''Job Running'' 0, poll_at 301 ''Job Running'' 0] [])
       = Some (Inl (did_not_start ''j1''))
   \<and> run_job (job_with [poll_at 0 ''Job Running'' 0, poll_at 1801 ''Job Running'' 50] [])
       = Some (Inl (did_not_complete ''j1''))
   \<and> run_job (job_with [poll_at 0 ''Job Running'' 0, poll_at 120 ''Job Completed'' 100] [])
       = Some (Inr (poll_at 120 ''Job Completed'' 100))"
proof -
  have pre: "list_all pending [poll_at 0 ''Job Running'' 0]"
    by (simp add: poll_eval pending_def)
  have a: "run_job (job_with [poll_at 0 ''Job Running'' 0, poll_at 301 ''Job Running'' 0] [])
       = Some (Inl (did_not_start ''j1''))"
    using run_job_classification [of "job_with [poll_at 0 ''Job Running'' 0, poll_at 301 ''Job Running'' 0] []"
        "[poll_at 0 ''Job Running'' 0]" "poll_at 301 ''Job Running'' 0" "[]", OF _ _ pre]
    by (simp add: poll_at_def job_with_def)
  have b: "run_job (job_with [poll_at 0 ''Job Running'' 0, poll_at 1801 ''Job Running'' 50] [])
       = Some (Inl (did_not_complete ''j1''))"
    using run_job_classification [of "job_with [poll_at 0 ''Job Running'' 0, poll_at 1801 ''Job Running'' 50] []"
        "[poll_at 0 ''Job Running'' 0]" "poll_at 1801 ''Job Running'' 50" "[]", OF _ _ pre]
    by (simp add: poll_at_def job_with_def)
  have c: "run_job (job_with [poll_at 0 ''Job Running'' 0, poll_at 120 ''Job Completed'' 100] [])
       = Some (Inr (poll_at 120 ''Job Completed'' 100))"
    using run_job_classification [of "job_with [poll_at 0 ''Job Running'' 0, poll_at 120 ''Job Completed'' 100] []"
        "[poll_at 0 ''Job Running'' 0]" "poll_at 120 ''Job Completed'' 100" "[]", OF _ _ pre]
    by (simp add: poll_at_def job_with_def)
  show ?thesis by (intro conjI pre a b c)
qed

text \<open>
  Counterexample to C6 as stated: at 1801 seconds with a status that is not completed
  and the percentage still 0, the failure raised is "did not start", not "did not
  complete": the start test comes first in the \<open>if\<close>/\<open>elif\<close> chain.
\<close>

theorem finish_deadline_counterexample:
  "duration (poll_at 1801 ''Job Running'' 0) > 1800
   \<and> async_status (poll_at 1801 ''Job Running'' 0) \<noteq> ''Job Completed''
   \<and> run_job (job_with [poll_at 0 ''Job Running'' 0, poll_at 1801 ''Job Running'' 0] [])
       = Some (Inl (did_not_start ''j1''))
   \<and> did_not_start ''j1'' \<noteq> did_not_complete ''j1''"
  by (simp add: poll_eval did_not_start_def did_not_complete_def)

text \<open>The loop ends at the latest at the first poll after the finish deadline.\<close>

lemma poll_loop_ends:
  "\<exists>q \<in> set ps. duration q > 1800 \<Longrightarrow> poll_loop ps \<noteq> None"
  by (induction ps)
     (auto simp add: INSIGHTS_MAX_WAIT_TO_START_SECONDS_def INSIGHTS_MAX_WAIT_TO_FINISH_SECONDS_def)

section \<open>The iteration of the insights stream\<close>

text \<open>The class \<open>State\<close> has no attribute \<open>update\<close>.\<close>

lemma State_call_update:
  "State_call P st ''update'' stream v = (st, Inl (no_attribute ''State'' ''update''))"
  by (simp add: State_call_def State_getattr_def State_members_def)

lemma iter_body_completed:
  assumes "run_job env = Some (Inr job)"
  shows "iter_body P self st env out =
     (case drain_result (name self) PNone (result env) out of
        (out', Inl e) \<Rightarrow> Some (st, out', Some e)
      | (out', Inr m) \<Rightarrow> Some (st, out', Some (no_attribute ''State'' ''update'')))"
  using assms by (simp add: iter_body_def State_call_update split: prod.splits sum.splits)

text \<open>
  C8. For a job that completes and yields no record, the loop body leaves the \<open>State\<close>
  object as it was and yields nothing: no \<open>advance\<close> is called and no state message is
  produced. The body ends with the AttributeError of the lookup of \<open>update\<close>.
\<close>

theorem empty_window_no_checkpoint:
  assumes "run_job env = Some (Inr job)" and "result env = []"
  shows "iter_body P self st env out = Some (st, out, Some (no_attribute ''State'' ''update''))"
  using assms by (simp add: iter_body_completed)

text \<open>Witness for C8: a job completed at its first poll, with no records.\<close>

theorem empty_window_no_checkpoint_witness:
  "run_job (job_with [poll_at 0 ''Job Completed'' 100] []) = Some (Inr (poll_at 0 ''Job Completed'' 100))
   \<and> result (job_with [poll_at 0 ''Job Completed'' 100] []) = []
   \<and> iter_body iso (ads_insights []) state0 (job_with [poll_at 0 ''Job Completed'' 100] []) []
       = Some (state0, [], Some (no_attribute ''State'' ''update''))"
proof -
  have h1: "run_job (job_with [poll_at 0 ''Job Completed'' 100] [])
      = Some (Inr (poll_at 0 ''Job Completed'' 100))"
    by (simp add: poll_eval)
  have h2: "result (job_with [poll_at 0 ''Job Completed'' 100] []) = []"
    by (simp add: job_with_def)
  from empty_window_no_checkpoint [OF h1 h2] h1 h2 show ?thesis
    by blast
qed

lemma state0_get: "State_get iso state0 (name (ads_insights sel)) = ''2021-01-01''"
  by (simp add: State_get_def State__get_def state0_def iso_date_string_ex)

lemma first_window:
  "job_params_next iso (ads_insights sel) state0 (days 18630) Created
     = Inr (Some (mk_params iso (ads_insights sel) (days 18628 - days 28) (days 18628),
                  Suspended (days 18628 - days 28) (days 18628)))"
proof -
  have "days 18628 \<le> days 18630"
    by (simp add: days_def)
  then show ?thesis
    by (simp add: state0_get iso_parse_ex job_params_test_def)
qed

lemma drain_three:
  "drain_result ''ads_insights'' PNone [dated ''2021-01-03'', dated ''2021-01-01'', dated ''2021-01-02''] []
     = ([RecordMessage ''ads_insights'' (dated ''2021-01-03''),
         RecordMessage ''ads_insights'' (dated ''2021-01-01''),
         RecordMessage ''ads_insights'' (dated ''2021-01-02'')], Inr (PStr ''2021-01-01''))"
  by (simp add: dated_def row_get_def)

text \<open>
  C2. For the records dated 2021-01-03, 2021-01-01 and 2021-01-02 the loop tracks the
  minimum 2021-01-01 and yields the three record messages, but the iteration then ends
  with an AttributeError: the watermark is not advanced and no state message follows the
  records.
\<close>

theorem checkpoint_not_emitted:
  "drain_result ''ads_insights'' PNone
      [dated ''2021-01-03'', dated ''2021-01-01'', dated ''2021-01-02''] []
     = ([RecordMessage ''ads_insights'' (dated ''2021-01-03''),
         RecordMessage ''ads_insights'' (dated ''2021-01-01''),
         RecordMessage ''ads_insights'' (dated ''2021-01-02'')], Inr (PStr ''2021-01-01''))
   \<and> AdsInsights_iter iso (ads_insights []) (\<lambda>k. days 18630)
       (\<lambda>k. job_with [poll_at 0 ''Job Completed'' 100]
               [dated ''2021-01-03'', dated ''2021-01-01'', dated ''2021-01-02'']) state0
     = Some (state0,
             [RecordMessage ''ads_insights'' (dated ''2021-01-03''),
              RecordMessage ''ads_insights'' (dated ''2021-01-01''),
              RecordMessage ''ads_insights'' (dated ''2021-01-02'')],
             Some (no_attribute ''State'' ''update''))"
proof -
  have run: "run_job (job_with [poll_at 0 ''Job Completed'' 100]
               [dated ''2021-01-03'', dated ''2021-01-01'', dated ''2021-01-02''])
      = Some (Inr (poll_at 0 ''Job Completed'' 100))"
    by (simp add: poll_eval)
  have nm: "name (ads_insights []) = ''ads_insights''"
    by (simp add: ads_insights_def)
  have res: "result (job_with [poll_at 0 ''Job Completed'' 100]
               [dated ''2021-01-03'', dated ''2021-01-01'', dated ''2021-01-02''])
      = [dated ''2021-01-03'', dated ''2021-01-01'', dated ''2021-01-02'']"
    by (simp add: job_with_def)
  have body: "iter_body iso (ads_insights []) state0
       (job_with [poll_at 0 ''Job Completed'' 100]
               [dated ''2021-01-03'', dated ''2021-01-01'', dated ''2021-01-02'']) []
     = Some (state0,
             [RecordMessage ''ads_insights'' (dated ''2021-01-03''),
              RecordMessage ''ads_insights'' (dated ''2021-01-01''),
              RecordMessage ''ads_insights'' (dated ''2021-01-02'')],
             Some (no_attribute ''State'' ''update''))"
    by (simp only: iter_body_completed [OF run] nm res drain_three prod.case sum.case)
  have "AdsInsights_iter iso (ads_insights []) (\<lambda>k. days 18630)
       (\<lambda>k. job_with [poll_at 0 ''Job Completed'' 100]
               [dated ''2021-01-03'', dated ''2021-01-01'', dated ''2021-01-02'']) state0
     = Some (state0,
             [RecordMessage ''ads_insights'' (dated ''2021-01-03''),
              RecordMessage ''ads_insights'' (dated ''2021-01-01''),
              RecordMessage ''ads_insights'' (dated ''2021-01-02'')],
             Some (no_attribute ''State'' ''update''))"
    unfolding AdsInsights_iter_def
    by (subst iter_loop.simps) (simp add: job_params_call first_window body del: job_params_next.simps)
  with drain_three show ?thesis by blast
qed

text \<open>
  C7. A job still at 0 percent after 301 seconds ends the iteration with the failure
  "did not start"; the next job is never submitted. Both timeouts are raised with the
  class \<open>Exception\<close>, which the retry decorator does not retry, and the decorated
  \<open>job_params\<close> is called once.
\<close>

theorem timeout_not_retried:
  "AdsInsights_iter iso (ads_insights []) (\<lambda>k. days 18630)
       (\<lambda>k. if k = 0 then job_with [poll_at 0 ''Job Not Started'' 0, poll_at 301 ''Job Not Started'' 0] []
             else job_with [poll_at 0 ''Job Completed'' 100] []) state0
     = Some (state0, [], Some (did_not_start ''j1''))
   \<and> exn_cls (did_not_start ''j1'') = Exception
   \<and> exn_cls (did_not_complete ''j1'') = Exception
   \<and> on_exception InsightsJobTimeout 3 (\<lambda>n. (Inl (did_not_start ''j1'') :: exn + poll))
       = (Inl (did_not_start ''j1''), 1)
   \<and> job_params = (Inr Created, 1)"
proof -
  have run: "run_job (job_with [poll_at 0 ''Job Not Started'' 0, poll_at 301 ''Job Not Started'' 0] [])
      = Some (Inl (did_not_start ''j1''))"
    by (simp add: poll_eval)
  have a: "AdsInsights_iter iso (ads_insights []) (\<lambda>k. days 18630)
       (\<lambda>k. if k = 0 then job_with [poll_at 0 ''Job Not Started'' 0, poll_at 301 ''Job Not Started'' 0] []
             else job_with [poll_at 0 ''Job Completed'' 100] []) state0
     = Some (state0, [], Some (did_not_start ''j1''))"
    unfolding AdsInsights_iter_def
    by (subst iter_loop.simps) (simp add: job_params_call first_window iter_body_def run del: job_params_next.simps)
  have b: "exn_cls (did_not_start ''j1'') = Exception"
    by (simp add: did_not_start_def)
  have c: "exn_cls (did_not_complete ''j1'') = Exception"
    by (simp add: did_not_complete_def)
  have d: "on_exception InsightsJobTimeout 3 (\<lambda>n. (Inl (did_not_start ''j1'') :: exn + poll))
       = (Inl (did_not_start ''j1''), 1)"
    by (simp add: on_exception_def numeral_2_eq_2 b)
  show ?thesis by (intro conjI a b c d job_params_call)
qed

section \<open>Field coercion\<close>

lemmas coerce_eval = transform_fields_def transform_entry_def row_get_def transform_field_def
  python3_def parse_int_def strip_def is_space_def unsigned_def is_digit_def typed_def

text \<open>
  When the field is missing from the row, every declared type fails with the KeyError of
  the subscript, so the entry is rejected whatever its schema says.
\<close>

lemma try_types_absent:
  "row field_name = None \<Longrightarrow>
   try_types B row field_name fmt ts errors
     = Inl (errors @ replicate (length ts) (Exn KeyError ''{!r}'' [AStr field_name]))"
  by (induction ts arbitrary: errors) (simp_all add: row_get_def replicate_app_Cons_same)

lemma absent_field_fails:
  assumes "row field_name = None"
  shows "\<exists>e. snd (transform_entry B row field_name fs) = Inl e"
proof (cases "ftype fs")
  case None
  then show ?thesis by (simp add: transform_entry_def)
next
  case (Some decl)
  then show ?thesis
    by (simp add: transform_entry_def Let_def assms try_types_absent
        split: sum.splits type_decl.splits)
qed

text \<open>
  C3. A field of type \<open>["string", "null"]\<close> that is missing from the row is rejected:
  \<open>"null"\<close> is removed from the schema's list, the only type left fails with a KeyError,
  and the error branch raises. A missing field whose type list has no \<open>"null"\<close> is
  rejected with the error "not in row and not null".
\<close>

theorem nullable_absent_field_rejected:
  "transform_fields python3 Map.empty [(''f'', typed [''string'', ''null''] None)]
     = ([(''f'', typed [''string''] None)], Inl (no_attribute ''KeyError'' ''message''))
   \<and> transform_fields python3 Map.empty [(''f'', typed [''string''] None)]
     = ([(''f'', typed [''string''] None)],
        Inl (Exn ValueError ''{} not in row and not null'' [AStr ''f'']))"
  by (simp add: coerce_eval)

text \<open>
  The declared types are tried in the order listed, and the first that raises nothing
  gives the value.
\<close>

lemma try_types_first_success:
  assumes "row field_name = Some v"
    and "\<forall>t \<in> set failed. \<exists>e. transform_field B v t fmt = Inl e"
    and "transform_field B v t fmt = Inr w"
  shows "try_types B row field_name fmt (failed @ t # rest) errors = Inr w"
  using assms
proof (induction failed arbitrary: errors)
  case Nil
  then show ?case by (simp add: row_get_def)
next
  case (Cons a failed)
  then obtain e where "transform_field B v a fmt = Inl e" by auto
  with Cons show ?case by (simp add: row_get_def)
qed

text \<open>
  C4. Under type \<open>["integer"]\<close> the raw value \<open>"42"\<close> gives the integer 42. For the
  raw value \<open>"abc"\<close> every declared type fails, and building the error message reads
  \<open>e.message\<close> of the caught ValueError, which raises an AttributeError instead of the
  error that names the field.
\<close>

theorem all_types_fail_attribute_error:
  "transform_fields python3 [''n'' \<mapsto> PStr ''42''] [(''n'', typed [''integer''] None)]
     = ([(''n'', typed [''integer''] None)], Inr [''n'' \<mapsto> PInt 42])
   \<and> transform_fields python3 [''n'' \<mapsto> PStr ''abc''] [(''n'', typed [''integer''] None)]
     = ([(''n'', typed [''integer''] None)], Inl (no_attribute ''ValueError'' ''message''))"
  by (simp add: coerce_eval)

text \<open>
  Counterexample to C9 as stated: with the unknown type \<open>uuid\<close> listed before
  \<open>string\<close>, the validator raises nothing and returns the value.
\<close>

theorem unknown_type_counterexample:
  "transform_fields python3 [''f'' \<mapsto> PStr ''x''] [(''f'', typed [''uuid'', ''string''] None)]
     = ([(''f'', typed [''uuid'', ''string''] None)], Inr [''f'' \<mapsto> PStr ''x''])"
  by (simp add: coerce_eval)

text \<open>
  C9, as amended. For a field whose format is not \<open>date-time\<close>, \<open>transform_field\<close>
  raises the ValueError "Unsuppported type" for every type other than boolean, integer,
  number and string. \<open>transform_fields\<close> catches it as it catches any failure of a
  declared type: the error is appended to the errors collected and the next type is
  tried.
\<close>

theorem unknown_type_ordinary_failure:
  assumes "fmt \<noteq> Some ''date-time''"
    and "t \<notin> {''boolean'', ''integer'', ''number'', ''string''}"
  shows "transform_field B v t fmt = Inl (Exn ValueError ''Unsuppported type {}'' [AStr t])
       \<and> (row field_name = Some v \<longrightarrow>
            try_types B row field_name fmt (t # rest) errors
              = try_types B row field_name fmt rest
                  (errors @ [Exn ValueError ''Unsuppported type {}'' [AStr t]]))"
  using assms by (simp add: transform_field_def row_get_def)

text \<open>Witness for C9: the value \<open>"x"\<close> under the types \<open>uuid\<close> and \<open>string\<close>.\<close>

theorem unknown_type_ordinary_failure_witness:
  "None \<noteq> Some ''date-time''
   \<and> ''uuid'' \<notin> {''boolean'', ''integer'', ''number'', ''string''}
   \<and> [''f'' \<mapsto> PStr ''x''] ''f'' = Some (PStr ''x'')
   \<and> transform_field python3 (PStr ''x'') ''uuid'' None
        = Inl (Exn ValueError ''Unsuppported type {}'' [AStr ''uuid''])
   \<and> try_types python3 [''f'' \<mapsto> PStr ''x''] ''f'' None [''uuid'', ''string''] [] = Inr (PStr ''x'')"
proof -
  have h1: "None \<noteq> Some ''date-time''" by simp
  have h2: "''uuid'' \<notin> {''boolean'', ''integer'', ''number'', ''string''}" by simp
  have h3: "[''f'' \<mapsto> PStr ''x''] ''f'' = Some (PStr ''x'')" by simp
  from unknown_type_ordinary_failure [OF h1 h2, of python3 "PStr ''x''" "[''f'' \<mapsto> PStr ''x'']" "''f''"
      "[''string'']" "[]"] h3
  have "transform_field python3 (PStr ''x'') ''uuid'' None
        = Inl (Exn ValueError ''Unsuppported type {}'' [AStr ''uuid''])"
    and "try_types python3 [''f'' \<mapsto> PStr ''x''] ''f'' None [''uuid'', ''string''] []
        = try_types python3 [''f'' \<mapsto> PStr ''x''] ''f'' None [''string'']
            ([] @ [Exn ValueError ''Unsuppported type {}'' [AStr ''uuid'']])"
    by blast+
  then show ?thesis
    using h1 h2 h3 by (simp add: row_get_def transform_field_def)
qed



end
